theory Spec2Isabelle
  imports Complex_Main "HOL-Library.Sublist" "HOL-Library.Word"
begin

section \<open>Text primitives of the Python runtime\<close>

text \<open>
  Python text is modelled by HOL strings: a character is a code point below 256.
  On this range \<^verbatim>\<open>str.lower\<close> changes the letters A-Z and the upper-case
  letters of the Latin-1 block, \<^verbatim>\<open>str.isspace\<close> holds for the code points
  9-13, 28-32, 133 and 160, and the only decimal digits are 0-9.
\<close>

definition lower_char :: "char \<Rightarrow> char" where
  "lower_char c =
     (let n = (of_char c :: nat)
      in if (65 \<le> n \<and> n \<le> 90) \<or> (192 \<le> n \<and> n \<le> 222 \<and> n \<noteq> 215)
         then char_of (n + 32) else c)"

definition py_lower :: "string \<Rightarrow> string" where
  "py_lower s = map lower_char s"

definition is_space :: "char \<Rightarrow> bool" where
  "is_space c =
     (let n = (of_char c :: nat)
      in (9 \<le> n \<and> n \<le> 13) \<or> (28 \<le> n \<and> n \<le> 32) \<or> n = 133 \<or> n = 160)"

definition is_digit :: "char \<Rightarrow> bool" where
  "is_digit c = (let n = (of_char c :: nat) in 48 \<le> n \<and> n \<le> 57)"

text \<open>\<^verbatim>\<open>needle in hay\<close> on strings: is the needle a contiguous part of the text?\<close>

fun starts_with :: "string \<Rightarrow> string \<Rightarrow> bool" where
  "starts_with [] hay = True"
| "starts_with (n # ns) [] = False"
| "starts_with (n # ns) (h # hs) = (n = h \<and> starts_with ns hs)"

fun str_contains :: "string \<Rightarrow> string \<Rightarrow> bool" where
  "str_contains needle [] = (needle = [])"
| "str_contains needle (h # hs) =
     (starts_with needle (h # hs) \<or> str_contains needle hs)"

text \<open>\<^verbatim>\<open>str(n)\<close> for an integer: decimal digits, a minus sign for a negative one.\<close>

definition digit_char :: "nat \<Rightarrow> char" where
  "digit_char d = char_of (48 + d)"

fun str_nat :: "nat \<Rightarrow> string" where
  "str_nat n = (if n < 10 then [digit_char n] else str_nat (n div 10) @ [digit_char (n mod 10)])"

declare str_nat.simps [simp del]

definition str_int :: "int \<Rightarrow> string" where
  "str_int i = (if i < 0 then CHR ''-'' # str_nat (nat (- i)) else str_nat (nat i))"

section \<open>The result model (models/result.py)\<close>

text \<open>
  \<^verbatim>\<open>AgentResult\<close> with the fields the core reads and writes. The wall-clock field
  \<^verbatim>\<open>duration_seconds\<close> and the free-form \<^verbatim>\<open>metadata\<close> mapping are left out: no
  operation below branches on them.
\<close>

record AgentResult =
  agent_name :: string
  "output" :: string
  success :: bool
  returncode :: int
  stderr :: string
  rate_limited :: bool
  retries :: int

text \<open>
  An exception is modelled by its class, as far as the code tells classes apart
  (\<^verbatim>\<open>except Exception\<close>, \<^verbatim>\<open>isinstance(r, Exception)\<close>), and its message
  \<^verbatim>\<open>str(e)\<close>. \<open>BaseExn\<close> stands for a \<^verbatim>\<open>BaseException\<close> that is not an
  \<^verbatim>\<open>Exception\<close>, such as a cancellation.
\<close>

datatype exn = Exn string | BaseExn string

fun exn_str :: "exn \<Rightarrow> string" where
  "exn_str (Exn m) = m"
| "exn_str (BaseExn m) = m"

definition from_error :: "string \<Rightarrow> exn \<Rightarrow> AgentResult" where
  "from_error name e =
     \<lparr>agent_name = name, output = [], success = False, returncode = - 1,
      stderr = exn_str e, rate_limited = False, retries = 0\<rparr>"

definition status_label :: "AgentResult \<Rightarrow> string" where
  "status_label r =
     (if success r then
        (if retries r > 0 then ''SUCCESS (retried '' @ str_int (retries r) @ ''x)''
         else ''SUCCESS'')
      else if rate_limited r then ''RATE_LIMITED''
      else if str_contains ''timed out'' (py_lower (stderr r))
              \<or> str_contains ''timeout'' (py_lower (stderr r)) then ''TIMEOUT''
      else ''FAILED'')"


section \<open>Agent adapters (adapters/base.py, claude.py, codex.py, gemini.py)\<close>

text \<open>
  The abstract adapter class has three concrete subclasses; an adapter instance is its
  kind and the configuration set by the constructor.
\<close>

datatype agent_kind = Claude | Codex | Gemini

record AgentAdapter =
  kind :: agent_kind
  binary_path :: string
  timeout :: int
  auto_approve :: bool
  default_model :: "string option"
  extra_args :: "string list"

fun kind_name :: "agent_kind \<Rightarrow> string" where
  "kind_name Claude = ''claude''"
| "kind_name Codex = ''codex''"
| "kind_name Gemini = ''gemini''"

definition name :: "AgentAdapter \<Rightarrow> string" where
  "name a = kind_name (kind a)"

text \<open>The keyword arguments of \<^verbatim>\<open>build_command\<close>, each with its default.\<close>

record kwargs =
  kw_json_output :: bool
  kw_model :: "string option"
  kw_auto_approve :: "bool option"
  kw_system_prompt :: "string option"
  kw_max_turns :: "int option"

definition no_kwargs :: kwargs where
  "no_kwargs = \<lparr>kw_json_output = False, kw_model = None, kw_auto_approve = None,
                 kw_system_prompt = None, kw_max_turns = None\<rparr>"

text \<open>Truth values of optional strings and integers: \<^verbatim>\<open>None\<close>, \<^verbatim>\<open>""\<close> and 0 are false.\<close>

fun truthy_str :: "string option \<Rightarrow> bool" where
  "truthy_str None = False"
| "truthy_str (Some s) = (s \<noteq> [])"

fun truthy_int :: "int option \<Rightarrow> bool" where
  "truthy_int None = False"
| "truthy_int (Some i) = (i \<noteq> 0)"

definition effective_model :: "AgentAdapter \<Rightarrow> kwargs \<Rightarrow> string option" where
  "effective_model a kw = (if truthy_str (kw_model kw) then kw_model kw else default_model a)"

definition effective_approve :: "AgentAdapter \<Rightarrow> kwargs \<Rightarrow> bool" where
  "effective_approve a kw = (case kw_auto_approve kw of Some b \<Rightarrow> b | None \<Rightarrow> auto_approve a)"

definition claude_build_command :: "AgentAdapter \<Rightarrow> string \<Rightarrow> kwargs \<Rightarrow> string list" where
  "claude_build_command a prompt kw =
     [binary_path a, ''-p'', prompt]
     @ (if kw_json_output kw then [''--output-format'', ''json''] else [])
     @ (if truthy_str (effective_model a kw) then [''--model'', the (effective_model a kw)] else [])
     @ (if effective_approve a kw then [''--permission-mode'', ''dontAsk''] else [])
     @ (if truthy_str (kw_system_prompt kw)
        then [''--append-system-prompt'', the (kw_system_prompt kw)] else [])
     @ (if truthy_int (kw_max_turns kw) then [''--max-turns'', str_int (the (kw_max_turns kw))] else [])
     @ extra_args a"

definition codex_build_command :: "AgentAdapter \<Rightarrow> string \<Rightarrow> kwargs \<Rightarrow> string list" where
  "codex_build_command a prompt kw =
     [binary_path a, ''exec'']
     @ (if truthy_str (effective_model a kw) then [''-m'', the (effective_model a kw)] else [])
     @ (if effective_approve a kw then [''--full-auto''] else [])
     @ (if kw_json_output kw then [''--json''] else [])
     @ extra_args a
     @ [prompt]"

definition gemini_build_command :: "AgentAdapter \<Rightarrow> string \<Rightarrow> kwargs \<Rightarrow> string list" where
  "gemini_build_command a prompt kw =
     [binary_path a]
     @ (if kw_json_output kw then [''--output-format'', ''json''] else [])
     @ (if truthy_str (effective_model a kw) then [''-m'', the (effective_model a kw)] else [])
     @ (if effective_approve a kw then [''-y''] else [])
     @ extra_args a
     @ [prompt]"

definition build_command :: "AgentAdapter \<Rightarrow> string \<Rightarrow> kwargs \<Rightarrow> string list" where
  "build_command a prompt kw =
     (case kind a of
        Claude \<Rightarrow> claude_build_command a prompt kw
      | Codex \<Rightarrow> codex_build_command a prompt kw
      | Gemini \<Rightarrow> gemini_build_command a prompt kw)"

text \<open>
  The flag each command line uses for automatic approval and for the model, and the
  values that follow a flag in an argument list.
\<close>

fun approval_flag :: "agent_kind \<Rightarrow> string" where
  "approval_flag Claude = ''--permission-mode''"
| "approval_flag Codex = ''--full-auto''"
| "approval_flag Gemini = ''-y''"

fun model_flag :: "agent_kind \<Rightarrow> string" where
  "model_flag Claude = ''--model''"
| "model_flag Codex = ''-m''"
| "model_flag Gemini = ''-m''"

fun flag_values :: "string \<Rightarrow> string list \<Rightarrow> string list" where
  "flag_values f (x # y # rest) = (if x = f then y # flag_values f (y # rest) else flag_values f (y # rest))"
| "flag_values f rest = []"

text \<open>
  The strings a caller hands to \<^verbatim>\<open>build_command\<close>, directly or through the
  adapter's configuration.
\<close>

definition supplied :: "AgentAdapter \<Rightarrow> string \<Rightarrow> kwargs \<Rightarrow> string set" where
  "supplied a prompt kw =
     {binary_path a, prompt} \<union> set (extra_args a) \<union> set_option (kw_model kw)
       \<union> set_option (default_model a) \<union> set_option (kw_system_prompt kw)"

subsection \<open>Regular expressions of the \<^verbatim>\<open>re\<close> module, as far as the patterns use them\<close>

text \<open>
  Patterns are compiled with IGNORECASE and without DOTALL: a literal matches both
  cases of its letter, the dot matches every character but the newline. \<open>rems r s\<close>
  lists, in the matcher's backtracking order (greedy first), what is left of \<open>s\<close>
  after a match of \<open>r\<close> at its start. \<open>re_search\<close> tries every start position from left
  to right, as \<^verbatim>\<open>pattern.search\<close> does.
\<close>

datatype rx =
    Lit char
  | Dot
  | Many1 "char \<Rightarrow> bool"
  | Opt rx
  | Cat rx rx
  | Eps

definition newline :: char where
  "newline = char_of (10 :: nat)"

definition ci_eq :: "char \<Rightarrow> char \<Rightarrow> bool" where
  "ci_eq x c = (lower_char x = lower_char c)"

fun rems :: "rx \<Rightarrow> string \<Rightarrow> string list" where
  "rems (Lit c) s = (case s of [] \<Rightarrow> [] | x # xs \<Rightarrow> if ci_eq x c then [xs] else [])"
| "rems Dot s = (case s of [] \<Rightarrow> [] | x # xs \<Rightarrow> if x \<noteq> newline then [xs] else [])"
| "rems (Many1 P) s = map (\<lambda>k. drop k s) (rev [1 ..< Suc (length (takeWhile P s))])"
| "rems (Opt r) s = rems r s @ [s]"
| "rems (Cat r1 r2) s = concat (map (rems r2) (rems r1 s))"
| "rems Eps s = [s]"

fun re_search :: "rx \<Rightarrow> string \<Rightarrow> bool" where
  "re_search r [] = (rems r [] \<noteq> [])"
| "re_search r (x # xs) = (rems r (x # xs) \<noteq> [] \<or> re_search r xs)"

definition lits :: "string \<Rightarrow> rx" where
  "lits s = foldr (\<lambda>c r. Cat (Lit c) r) s Eps"

definition cats :: "rx list \<Rightarrow> rx" where
  "cats rs = foldr Cat rs Eps"

text \<open>The words a pattern matches, as a set: the declarative reading of a pattern.\<close>

fun lang :: "rx \<Rightarrow> string set" where
  "lang (Lit c) = {[x] | x. ci_eq x c}"
| "lang Dot = {[x] | x. x \<noteq> newline}"
| "lang (Many1 P) = {w. w \<noteq> [] \<and> list_all P w}"
| "lang (Opt r) = insert [] (lang r)"
| "lang (Cat r1 r2) = {u @ v | u v. u \<in> lang r1 \<and> v \<in> lang r2}"
| "lang Eps = {[]}"

definition RATE_LIMIT_PATTERNS :: "rx list" where
  "RATE_LIMIT_PATTERNS =
     [cats [lits ''rate'', Opt Dot, lits ''limit''],
      lits ''too many requests'',
      lits ''429'',
      cats [lits ''quota'', Opt Dot, lits ''exceeded''],
      cats [lits ''resource'', Opt Dot, lits ''exhausted''],
      lits ''overloaded'',
      cats [lits ''retry'', Opt Dot, lits ''after''],
      cats [lits ''token'', Opt (Lit CHR ''s''), Opt Dot, lits ''per'', Opt Dot, lits ''min''],
      cats [lits ''request'', Opt (Lit CHR ''s''), Opt Dot, lits ''per'', Opt Dot, lits ''min'']]"

text \<open>
  \<^verbatim>\<open>RETRY_AFTER_PATTERN\<close> in two parts: what precedes the group and the group itself.
\<close>

definition RETRY_AFTER_HEAD :: rx where
  "RETRY_AFTER_HEAD =
     cats [lits ''retry'', Opt Dot, lits ''after'', Many1 (\<lambda>c. c = CHR '':'' \<or> is_space c)]"

definition RETRY_AFTER_GROUP :: rx where
  "RETRY_AFTER_GROUP = Cat (Many1 is_digit) (Opt (Cat (Lit CHR ''.'') (Many1 is_digit)))"

text \<open>
  The first match of head and group at the start of \<open>s\<close>, in backtracking order;
  the result is the text of the group.
\<close>

definition match_group :: "rx \<Rightarrow> rx \<Rightarrow> string \<Rightarrow> string option" where
  "match_group hd_rx grp s =
     (case concat (map (\<lambda>t. map (\<lambda>t'. take (length t - length t') t) (rems grp t)) (rems hd_rx s)) of
        [] \<Rightarrow> None
      | g # _ \<Rightarrow> Some g)"

fun search_group :: "rx \<Rightarrow> rx \<Rightarrow> string \<Rightarrow> string option" where
  "search_group hd_rx grp [] = match_group hd_rx grp []"
| "search_group hd_rx grp (x # xs) =
     (case match_group hd_rx grp (x # xs) of
        Some g \<Rightarrow> Some g
      | None \<Rightarrow> search_group hd_rx grp xs)"

text \<open>
  \<^verbatim>\<open>float(text)\<close> for digits with an optional fraction. Floating-point numbers are
  modelled by the reals they stand for; rounding is not modelled.
\<close>

definition digit_val :: "char \<Rightarrow> nat" where
  "digit_val c = of_char c - 48"

definition digits_val :: "string \<Rightarrow> nat" where
  "digits_val ds = foldl (\<lambda>acc c. 10 * acc + digit_val c) 0 ds"

definition float_of_decimal :: "string \<Rightarrow> real" where
  "float_of_decimal s =
     (let ip = takeWhile is_digit s; fp = drop (Suc (length ip)) s
      in real (digits_val ip) + real (digits_val fp) / 10 ^ length fp)"

subsection \<open>Reading a finished process (adapters/base.py)\<close>

definition is_rate_limited :: "string \<Rightarrow> string \<Rightarrow> int \<Rightarrow> bool" where
  "is_rate_limited out err rc =
     (let combined = out @ [newline] @ err
      in list_ex (\<lambda>p. re_search p combined) RATE_LIMIT_PATTERNS)"

definition extract_retry_after :: "string \<Rightarrow> string \<Rightarrow> real option" where
  "extract_retry_after out err =
     (let combined = out @ [newline] @ err
      in case search_group RETRY_AFTER_HEAD RETRY_AFTER_GROUP combined of
           Some g \<Rightarrow> Some (float_of_decimal g)
         | None \<Rightarrow> None)"

text \<open>\<^verbatim>\<open>str.strip()\<close>, \<^verbatim>\<open>str.splitlines()\<close> and \<^verbatim>\<open>"\n".join(...)\<close>.\<close>

definition strip :: "string \<Rightarrow> string" where
  "strip s = rev (dropWhile is_space (rev (dropWhile is_space s)))"

definition is_linebreak :: "char \<Rightarrow> bool" where
  "is_linebreak c =
     (let n = (of_char c :: nat) in (10 \<le> n \<and> n \<le> 13) \<or> (28 \<le> n \<and> n \<le> 30) \<or> n = 133)"

definition carriage_return :: char where
  "carriage_return = char_of (13 :: nat)"

fun splitlines_from :: "string \<Rightarrow> string \<Rightarrow> string list" where
  "splitlines_from cur [] = (if cur = [] then [] else [cur])"
| "splitlines_from cur [c] = (if is_linebreak c then [cur] else [cur @ [c]])"
| "splitlines_from cur (c # d # cs) =
     (if c = carriage_return \<and> d = newline then cur # splitlines_from [] cs
      else if is_linebreak c then cur # splitlines_from [] (d # cs)
      else splitlines_from (cur @ [c]) (d # cs))"

definition splitlines :: "string \<Rightarrow> string list" where
  "splitlines s = splitlines_from [] s"

fun join_lines :: "string list \<Rightarrow> string" where
  "join_lines [] = []"
| "join_lines [l] = l"
| "join_lines (l # m # ls) = l @ [newline] @ join_lines (m # ls)"

text \<open>
  \<^verbatim>\<open>_filter_stderr\<close>: the identity in the base class, overridden by the Gemini
  adapter, which drops the lines of a known deprecation warning.
\<close>

definition gemini_filter_stderr :: "string \<Rightarrow> string" where
  "gemini_filter_stderr err =
     strip (join_lines
       (filter (\<lambda>line. \<not> str_contains ''punycode'' (py_lower line)
                      \<and> \<not> str_contains ''DeprecationWarning'' line)
          (splitlines err)))"

definition filter_stderr :: "AgentAdapter \<Rightarrow> string \<Rightarrow> string" where
  "filter_stderr a err = (case kind a of Gemini \<Rightarrow> gemini_filter_stderr err | _ \<Rightarrow> err)"

text \<open>
  \<^verbatim>\<open>parse_output\<close>. The codec \<^verbatim>\<open>bytes.decode("utf-8", errors="replace")\<close> belongs
  to the runtime; it is the parameter \<open>decode\<close>, a total function from bytes to text.
\<close>

type_synonym bytes = "8 word list"

definition parse_output ::
  "(bytes \<Rightarrow> string) \<Rightarrow> AgentAdapter \<Rightarrow> bytes \<Rightarrow> bytes \<Rightarrow> int \<Rightarrow> AgentResult" where
  "parse_output decode a stdout_bytes stderr_bytes rc =
     (let out = strip (decode stdout_bytes);
          err = filter_stderr a (strip (decode stderr_bytes));
          limited = is_rate_limited out err rc
      in \<lparr>agent_name = name a, output = out, success = (rc = 0 \<and> \<not> limited),
          returncode = rc, stderr = err, rate_limited = limited, retries = 0\<rparr>)"

text \<open>
  What "whitespace-trimmed" means: \<open>t\<close> is \<open>s\<close> without a run of whitespace at each
  end, and \<open>t\<close> itself neither starts nor ends with whitespace.
\<close>

definition trimmed_of :: "string \<Rightarrow> string \<Rightarrow> bool" where
  "trimmed_of t s =
     (\<exists>pre post. s = pre @ t @ post \<and> list_all is_space pre \<and> list_all is_space post
        \<and> (t \<noteq> [] \<longrightarrow> \<not> is_space (hd t) \<and> \<not> is_space (last t)))"

text \<open>
  For the examples: the bytes of an ASCII text, and a decoder that is right on such
  bytes (UTF-8 decoding maps them to the text itself).
\<close>

definition ascii_bytes :: "string \<Rightarrow> bytes" where
  "ascii_bytes s = map (\<lambda>c. of_nat (of_char c)) s"

definition ascii_decode :: "bytes \<Rightarrow> string" where
  "ascii_decode bs = map (\<lambda>b. char_of (unat b)) bs"

section \<open>The process executor (core/executor.py)\<close>

text \<open>
  The executor holds the mapping from agent names to adapters (a dict: an association
  list, read with \<open>map_of\<close>, whose order is the dict's insertion order) and the retry
  policy taken from the configuration. Delays are floating-point seconds, modelled by
  reals.
\<close>

record AgentExecutor =
  adapters :: "(string \<times> AgentAdapter) list"
  max_retries :: int
  retry_base_delay :: real
  retry_max_delay :: real

text \<open>
  What the operating system does with a spawned process is the environment of the
  model: the process exits with its two output streams and an exit code, or the wait
  runs into the adapter's timeout, or spawning or waiting raises.
\<close>

datatype proc_outcome = Exited bytes bytes int | TimedOut | Raised exn

text \<open>
  The environment of one \<^verbatim>\<open>run_single\<close> call gives the outcome of the process
  spawned at each attempt. The effects of a call are recorded as a trace: each call of
  the spawn primitive with its argument list, and each sleep with its delay.
\<close>

type_synonym spawn_env = "nat \<Rightarrow> string list \<Rightarrow> proc_outcome"

datatype event = Spawn "string list" | Sleep real

fun is_spawn :: "event \<Rightarrow> bool" where
  "is_spawn (Spawn cmd) = True"
| "is_spawn (Sleep d) = False"

definition spawn_count :: "event list \<Rightarrow> nat" where
  "spawn_count tr = length (filter is_spawn tr)"

fun sleeps :: "event list \<Rightarrow> real list" where
  "sleeps [] = []"
| "sleeps (Sleep d # tr) = d # sleeps tr"
| "sleeps (Spawn cmd # tr) = sleeps tr"

text \<open>
  \<^verbatim>\<open>_execute_once\<close>, given the outcome of the process it spawned. A timeout and an
  \<^verbatim>\<open>Exception\<close> become failed results; any other raised object leaves the function.
\<close>

definition execute_once ::
  "(bytes \<Rightarrow> string) \<Rightarrow> string \<Rightarrow> AgentAdapter \<Rightarrow> proc_outcome \<Rightarrow> exn + AgentResult" where
  "execute_once decode agent adapter outcome =
     (case outcome of
        Exited so se rc \<Rightarrow> Inr (parse_output decode adapter so se rc)
      | TimedOut \<Rightarrow>
          Inr \<lparr>agent_name = agent, output = [], success = False, returncode = - 1,
               stderr = ''Agent timed out after '' @ str_int (timeout adapter) @ ''s'',
               rate_limited = False, retries = 0\<rparr>
      | Raised (Exn m) \<Rightarrow> Inr (from_error agent (Exn m))
      | Raised (BaseExn m) \<Rightarrow> Inl (BaseExn m))"

text \<open>\<^verbatim>\<open>2 ** n\<close> for an integer exponent.\<close>

definition py_pow2 :: "int \<Rightarrow> real" where
  "py_pow2 n = (if 0 \<le> n then 2 ^ nat n else 1 / 2 ^ nat (- n))"

definition compute_delay ::
  "AgentExecutor \<Rightarrow> int \<Rightarrow> AgentResult option \<Rightarrow> AgentAdapter \<Rightarrow> real" where
  "compute_delay ex attempt last_result adapter =
     (let backoff = min (retry_base_delay ex * py_pow2 (attempt - 1)) (retry_max_delay ex)
      in case last_result of
           None \<Rightarrow> backoff
         | Some prev \<Rightarrow>
             (case extract_retry_after (output prev) (stderr prev) of
                Some server_delay \<Rightarrow> min server_delay (retry_max_delay ex)
              | None \<Rightarrow> backoff))"

text \<open>
  The loop \<^verbatim>\<open>for attempt in range(self._max_retries + 1)\<close>: \<open>remaining\<close> counts the
  iterations still to run. Every iteration but the first sleeps before it spawns. The
  loop ends by returning a result, by an exception, or by running out of iterations with
  the last rate-limited result, if there is one.
\<close>

datatype loop_end = Returned AgentResult | Raising exn | Exhausted "AgentResult option"

definition pause_events ::
  "AgentExecutor \<Rightarrow> AgentAdapter \<Rightarrow> nat \<Rightarrow> AgentResult option \<Rightarrow> event list" where
  "pause_events ex adapter attempt last_result =
     (if attempt > 0 then [Sleep (compute_delay ex (int attempt) last_result adapter)] else [])"

fun retry_loop ::
  "(bytes \<Rightarrow> string) \<Rightarrow> AgentExecutor \<Rightarrow> spawn_env \<Rightarrow> string \<Rightarrow> AgentAdapter \<Rightarrow> string list
     \<Rightarrow> nat \<Rightarrow> nat \<Rightarrow> AgentResult option \<Rightarrow> loop_end \<times> event list" where
  "retry_loop decode ex env agent adapter cmd 0 attempt last_result = (Exhausted last_result, [])"
| "retry_loop decode ex env agent adapter cmd (Suc remaining) attempt last_result =
     (case execute_once decode agent adapter (env attempt cmd) of
        Inl e \<Rightarrow> (Raising e, pause_events ex adapter attempt last_result @ [Spawn cmd])
      | Inr result \<Rightarrow>
          if \<not> rate_limited result
          then (Returned (result\<lparr>retries := int attempt\<rparr>),
                pause_events ex adapter attempt last_result @ [Spawn cmd])
          else (case retry_loop decode ex env agent adapter cmd remaining (Suc attempt) (Some result) of
                  (e, tr) \<Rightarrow> (e, pause_events ex adapter attempt last_result @ [Spawn cmd] @ tr)))"

text \<open>
  \<^verbatim>\<open>run_single\<close>. When the loop runs no iteration at all, the assertion on the last
  result fails: an \<^verbatim>\<open>AssertionError\<close> without a message.
\<close>

definition run_single ::
  "(bytes \<Rightarrow> string) \<Rightarrow> AgentExecutor \<Rightarrow> spawn_env \<Rightarrow> string \<Rightarrow> string \<Rightarrow> kwargs
     \<Rightarrow> (exn + AgentResult) \<times> event list" where
  "run_single decode ex env agent prompt kw =
     (case map_of (adapters ex) agent of
        None \<Rightarrow> (Inr (from_error agent (Exn (''Unknown agent: '' @ agent))), [])
      | Some adapter \<Rightarrow>
          (let cmd = build_command adapter prompt kw
           in case retry_loop decode ex env agent adapter cmd (nat (max_retries ex + 1)) 0 None of
                (Returned r, tr) \<Rightarrow> (Inr r, tr)
              | (Raising e, tr) \<Rightarrow> (Inl e, tr)
              | (Exhausted None, tr) \<Rightarrow> (Inl (Exn []), tr)
              | (Exhausted (Some prev), tr) \<Rightarrow> (Inr (prev\<lparr>retries := max_retries ex\<rparr>), tr)))"





text \<open>For the examples: a Claude adapter and an executor with the retry policy of the tests.\<close>

definition example_claude :: AgentAdapter where
  "example_claude = \<lparr>kind = Claude, binary_path = ''/usr/bin/claude'', timeout = 30,
     auto_approve = True, default_model = None, extra_args = []\<rparr>"

definition example_executor :: AgentExecutor where
  "example_executor = \<lparr>adapters = [(''claude'', example_claude)], max_retries = 2,
     retry_base_delay = 1 / 100, retry_max_delay = 1 / 20\<rparr>"

section \<open>The orchestrator (core/orchestrator.py)\<close>

text \<open>
  A delegation plan is what \<^verbatim>\<open>json.loads\<close> returns: a JSON value. An object is the
  list of its members, read with \<open>map_of\<close>.
\<close>

datatype json =
    JNull
  | JBool bool
  | JInt int
  | JFloat real
  | JStr string
  | JArr "json list"
  | JObj "(string \<times> json) list"

text \<open>The truth value of a JSON value as a Python object, and whether \<^verbatim>\<open>len\<close> accepts it.\<close>

fun truthy :: "json \<Rightarrow> bool" where
  "truthy JNull = False"
| "truthy (JBool b) = b"
| "truthy (JInt i) = (i \<noteq> 0)"
| "truthy (JFloat x) = (x \<noteq> 0)"
| "truthy (JStr s) = (s \<noteq> [])"
| "truthy (JArr xs) = (xs \<noteq> [])"
| "truthy (JObj kvs) = (kvs \<noteq> [])"

fun has_len :: "json \<Rightarrow> bool" where
  "has_len (JStr s) = True"
| "has_len (JArr xs) = True"
| "has_len (JObj kvs) = True"
| "has_len v = False"

text \<open>\<^verbatim>\<open>d.get(key, default)\<close> on the members of an object.\<close>

definition dict_get :: "(string \<times> json) list \<Rightarrow> string \<Rightarrow> json \<Rightarrow> json" where
  "dict_get kvs key dflt = (case map_of kvs key of Some v \<Rightarrow> v | None \<Rightarrow> dflt)"

text \<open>What a \<^verbatim>\<open>for\<close> loop sees in a value that has a length.\<close>

fun elements :: "json \<Rightarrow> json list" where
  "elements (JArr xs) = xs"
| "elements (JObj kvs) = map (\<lambda>kv. JStr (fst kv)) kvs"
| "elements (JStr s) = map (\<lambda>c. JStr [c]) s"
| "elements v = []"

text \<open>
  The orchestrator talks to the executor through \<^verbatim>\<open>run_single\<close> and
  \<^verbatim>\<open>run_parallel\<close> and to the JSON libraries through
  \<^verbatim>\<open>json.loads(extract_json_block(text))\<close>. These are the environment of the model:
  the reply to a call may depend on the calls made before it, a reply is a value or a
  raised exception, and parsing yields a JSON value or fails with a message. The prompt
  handed to \<^verbatim>\<open>run_single\<close> is a JSON value, since the self-task of a plan need not be
  a string. \<^verbatim>\<open>str.upper\<close> is the runtime's too: it can change the length of a text and
  leave the code points below 256, so it is not computed here. The effects of
  \<^verbatim>\<open>run\<close> are the calls it makes, in order.
\<close>

datatype call = RunSingle string json bool | RunParallel "(string \<times> string) list"

record environment =
  single_reply :: "call list \<Rightarrow> string \<Rightarrow> json \<Rightarrow> bool \<Rightarrow> exn + AgentResult"
  parallel_reply :: "call list \<Rightarrow> (string \<times> string) list \<Rightarrow> exn + AgentResult list"
  loads_plan :: "string \<Rightarrow> string + json"
  upper :: "string \<Rightarrow> string"

definition call_single ::
  "environment \<Rightarrow> call list \<Rightarrow> string \<Rightarrow> json \<Rightarrow> bool \<Rightarrow> (exn + AgentResult) \<times> call list" where
  "call_single env hist agent prompt json_out =
     (single_reply env hist agent prompt json_out, hist @ [RunSingle agent prompt json_out])"

definition call_parallel ::
  "environment \<Rightarrow> call list \<Rightarrow> (string \<times> string) list \<Rightarrow> (exn + AgentResult list) \<times> call list" where
  "call_parallel env hist tasks = (parallel_reply env hist tasks, hist @ [RunParallel tasks])"

text \<open>
  The orchestrator object. The two prompt constants of the module are long fixed texts;
  they are fields here, so that every statement holds whatever they say.
\<close>

record Orchestrator =
  primary :: string
  orc_adapters :: "(string \<times> AgentAdapter) list"
  available_agents :: "string list"
  ORCHESTRATION_SYSTEM_PROMPT :: string
  CLAUDE_COORDINATOR_ONLY_POLICY :: string

text \<open>\<^verbatim>\<open>__init__\<close>: an absent or empty list of available agents is replaced by the
  names of the adapters. The adapters are a dict: the names in the list are distinct.\<close>

definition new_orchestrator ::
  "string \<Rightarrow> (string \<times> AgentAdapter) list \<Rightarrow> string list option \<Rightarrow> string \<Rightarrow> string
     \<Rightarrow> Orchestrator" where
  "new_orchestrator p ads avail sys_prompt policy =
     \<lparr>primary = p, orc_adapters = ads,
      available_agents = (case avail of
                            None \<Rightarrow> map fst ads
                          | Some xs \<Rightarrow> if xs = [] then map fst ads else xs),
      ORCHESTRATION_SYSTEM_PROMPT = sys_prompt,
      CLAUDE_COORDINATOR_ONLY_POLICY = policy\<rparr>"

definition primary_is_coordinator_only :: "Orchestrator \<Rightarrow> bool" where
  "primary_is_coordinator_only orc = (primary orc = ''claude'')"

definition build_worker_fallback_tasks :: "Orchestrator \<Rightarrow> string \<Rightarrow> (string \<times> string) list" where
  "build_worker_fallback_tasks orc prompt =
     map (\<lambda>agent. (agent, prompt)) (filter (\<lambda>agent. agent \<noteq> primary orc) (map fst (orc_adapters orc)))"

text \<open>
  Exceptions that the interpreter raises, not the source: the message is the
  interpreter's, and the model keeps the class name in its place.
\<close>

definition TypeError :: exn where
  "TypeError = Exn ''TypeError''"

definition AttributeError :: exn where
  "AttributeError = Exn ''AttributeError''"

text \<open>
  \<^verbatim>\<open>_build_dispatch_tasks\<close>. A subtask that is not an object has no \<^verbatim>\<open>get\<close>, and
  an agent entry that is a list or an object cannot be looked up in a dict: both raise.
\<close>

fun build_dispatch_tasks :: "Orchestrator \<Rightarrow> json list \<Rightarrow> exn + (string \<times> string) list" where
  "build_dispatch_tasks orc [] = Inr []"
| "build_dispatch_tasks orc (JObj kvs # rest) =
     (let agent = dict_get kvs ''agent'' (JStr []);
          task_prompt = dict_get kvs ''prompt'' JNull
      in case task_prompt of
           JStr p \<Rightarrow>
             if strip p = [] then build_dispatch_tasks orc rest
             else (case agent of
                     JArr xs \<Rightarrow> Inl TypeError
                   | JObj ms \<Rightarrow> Inl TypeError
                   | JStr a \<Rightarrow>
                       if a \<notin> set (map fst (orc_adapters orc)) then build_dispatch_tasks orc rest
                       else if primary_is_coordinator_only orc \<and> a = primary orc
                       then build_dispatch_tasks orc rest
                       else (case build_dispatch_tasks orc rest of
                               Inl e \<Rightarrow> Inl e
                             | Inr tasks \<Rightarrow> Inr ((a, p) # tasks))
                   | other \<Rightarrow> build_dispatch_tasks orc rest)
         | other \<Rightarrow> build_dispatch_tasks orc rest)"
| "build_dispatch_tasks orc (v # rest) = Inl AttributeError"

definition result_block :: "environment \<Rightarrow> AgentResult \<Rightarrow> string" where
  "result_block env r =
     ''--- '' @ upper env (agent_name r) @ '' ['' @ status_label r @ ''] ---'' @ [newline]
       @ output r @ [newline]"

definition build_synthesis_prompt :: "environment \<Rightarrow> string \<Rightarrow> AgentResult list \<Rightarrow> string" where
  "build_synthesis_prompt env original_prompt results =
     join_lines
       ([''ORIGINAL TASK: '' @ original_prompt @ [newline, newline] @ ''RESULTS FROM AGENTS:'' @ [newline]]
        @ map (result_block env) results
        @ [[newline] @ ''Synthesize these results into a single, coherent response. ''
           @ ''Merge complementary information, resolve conflicts, and present ''
           @ ''the best unified answer.''])"

fun join_with :: "string \<Rightarrow> string list \<Rightarrow> string" where
  "join_with sep [] = []"
| "join_with sep [x] = x"
| "join_with sep (x # y # xs) = x @ sep @ join_with sep (y # xs)"

definition analysis_prompt :: "Orchestrator \<Rightarrow> string \<Rightarrow> string" where
  "analysis_prompt orc prompt =
     ORCHESTRATION_SYSTEM_PROMPT orc
     @ (if primary_is_coordinator_only orc
        then [newline, newline] @ CLAUDE_COORDINATOR_ONLY_POLICY orc else [])
     @ [newline, newline]
     @ ''AVAILABLE (installed) AGENTS: '' @ join_with '', '' (available_agents orc)
     @ [newline, newline] @ ''USER REQUEST:'' @ [newline] @ prompt"

text \<open>
  \<^verbatim>\<open>_analyze\<close>: the plan's members, or the exception that leaves the method.
\<close>

definition analyze ::
  "Orchestrator \<Rightarrow> environment \<Rightarrow> call list \<Rightarrow> string
     \<Rightarrow> (exn + (string \<times> json) list) \<times> call list" where
  "analyze orc env hist prompt =
     (case call_single env hist (primary orc) (JStr (analysis_prompt orc prompt)) True of
        (Inl e, hist1) \<Rightarrow> (Inl e, hist1)
      | (Inr result, hist1) \<Rightarrow>
          if \<not> success result
          then (Inl (Exn (''Primary agent failed during analysis: '' @ stderr result)), hist1)
          else (case loads_plan env (output result) of
                  Inl msg \<Rightarrow> (Inl (Exn (''Invalid delegation plan JSON: '' @ msg)), hist1)
                | Inr (JObj plan) \<Rightarrow>
                    if ''delegate'' \<in> set (map fst plan) then (Inr plan, hist1)
                    else (Inl (Exn ''Delegation plan missing 'delegate' key''), hist1)
                | Inr other \<Rightarrow> (Inl (Exn ''Delegation plan is not a JSON object''), hist1)))"

text \<open>The pieces of \<^verbatim>\<open>run\<close> that occur more than once in its text.\<close>

definition no_workers :: exn where
  "no_workers = Exn ''No worker agents available for coordinator-only primary''"

definition run_direct ::
  "Orchestrator \<Rightarrow> environment \<Rightarrow> call list \<Rightarrow> json \<Rightarrow> (exn + string) \<times> call list" where
  "run_direct orc env hist prompt =
     (case call_single env hist (primary orc) prompt False of
        (Inl e, hist1) \<Rightarrow> (Inl e, hist1)
      | (Inr result, hist1) \<Rightarrow> (Inr (output result), hist1))"

definition synthesize ::
  "Orchestrator \<Rightarrow> environment \<Rightarrow> call list \<Rightarrow> string \<Rightarrow> AgentResult list
     \<Rightarrow> (exn + string) \<times> call list" where
  "synthesize orc env hist prompt results =
     run_direct orc env hist (JStr (build_synthesis_prompt env prompt results))"

definition broadcast ::
  "Orchestrator \<Rightarrow> environment \<Rightarrow> call list \<Rightarrow> string \<Rightarrow> (exn + string) \<times> call list" where
  "broadcast orc env hist prompt =
     (let tasks = build_worker_fallback_tasks orc prompt
      in if tasks = [] then (Inl no_workers, hist)
         else (case call_parallel env hist tasks of
                 (Inl e, hist1) \<Rightarrow> (Inl e, hist1)
               | (Inr results, hist1) \<Rightarrow> synthesize orc env hist1 prompt results))"

text \<open>
  The last part of \<^verbatim>\<open>run\<close>: dispatch the tasks, run the self-task of a primary
  that may work itself, synthesize.
\<close>

definition dispatch ::
  "Orchestrator \<Rightarrow> environment \<Rightarrow> call list \<Rightarrow> string \<Rightarrow> (string \<times> json) list
     \<Rightarrow> (string \<times> string) list \<Rightarrow> (exn + string) \<times> call list" where
  "dispatch orc env hist prompt plan tasks =
     (case call_parallel env hist tasks of
        (Inl e, hist1) \<Rightarrow> (Inl e, hist1)
      | (Inr results, hist1) \<Rightarrow>
          (let self_task = dict_get plan ''self_task'' JNull
           in if truthy self_task \<and> \<not> primary_is_coordinator_only orc
              then (case call_single env hist1 (primary orc) self_task False of
                      (Inl e, hist2) \<Rightarrow> (Inl e, hist2)
                    | (Inr primary_result, hist2) \<Rightarrow>
                        synthesize orc env hist2 prompt (results @ [primary_result]))
              else synthesize orc env hist1 prompt results))"

text \<open>
  \<^verbatim>\<open>run\<close>. An \<^verbatim>\<open>Exception\<close> raised by the analysis is caught; anything else
  leaves \<^verbatim>\<open>run\<close>. The logging call after the analysis takes the length of the plan's
  subtasks entry, which raises a \<^verbatim>\<open>TypeError\<close> when the entry has no length.
\<close>

definition run :: "Orchestrator \<Rightarrow> environment \<Rightarrow> string \<Rightarrow> (exn + string) \<times> call list" where
  "run orc env prompt =
     (case analyze orc env [] prompt of
        (Inl (BaseExn m), hist) \<Rightarrow> (Inl (BaseExn m), hist)
      | (Inl (Exn m), hist) \<Rightarrow>
          if primary_is_coordinator_only orc then broadcast orc env hist prompt
          else run_direct orc env hist (JStr prompt)
      | (Inr plan, hist) \<Rightarrow>
          if \<not> has_len (dict_get plan ''subtasks'' (JArr []))
          then (Inl TypeError, hist)
          else if \<not> truthy (dict_get plan ''delegate'' (JBool False))
          then (if primary_is_coordinator_only orc then broadcast orc env hist prompt
                else run_direct orc env hist (JStr prompt))
          else (case build_dispatch_tasks orc (elements (dict_get plan ''subtasks'' (JArr []))) of
                  Inl e \<Rightarrow> (Inl e, hist)
                | Inr tasks \<Rightarrow>
                    if tasks = []
                    then (if primary_is_coordinator_only orc
                          then (let fallback = build_worker_fallback_tasks orc prompt
                                in if fallback = [] then (Inl no_workers, hist)
                                   else dispatch orc env hist prompt plan fallback)
                          else run_direct orc env hist (JStr prompt))
                    else dispatch orc env hist prompt plan tasks))"

text \<open>
  An example: a coordinator-only primary with two workers, and an environment in the
  manner of the repository's tests: the first call on the executor returns the text
  of the plan, the later ones a fixed answer, and the workers answer with their names.
\<close>

definition example_orchestrator :: Orchestrator where
  "example_orchestrator =
     new_orchestrator ''claude''
       [(''claude'', example_claude), (''gemini'', example_claude\<lparr>kind := Gemini\<rparr>),
        (''codex'', example_claude\<lparr>kind := Codex\<rparr>)]
       None ''S'' ''P''"

definition example_result :: "string \<Rightarrow> string \<Rightarrow> AgentResult" where
  "example_result agent out =
     \<lparr>agent_name = agent, output = out, success = True, returncode = 0, stderr = [],
      rate_limited = False, retries = 0\<rparr>"

definition example_environment :: "json \<Rightarrow> environment" where
  "example_environment plan =
     \<lparr>single_reply = (\<lambda>hist agent prompt json_out.
        Inr (example_result agent (if hist = [] then ''plan'' else ''done''))),
      parallel_reply = (\<lambda>hist tasks. Inr (map (\<lambda>task. example_result (fst task) (fst task)) tasks)),
      loads_plan = (\<lambda>text. if text = ''plan'' then Inr plan else Inl ''no JSON''),
      upper = id\<rparr>"

section \<open>Facts about the text primitives\<close>

lemma starts_with_prefix: "starts_with ns hs = prefix ns hs"
  by (induction ns hs rule: starts_with.induct) simp_all

lemma str_contains_sublist: "str_contains ns hs = sublist ns hs"
  by (induction hs) (simp_all add: starts_with_prefix sublist_Cons_right)

lemma py_lower_timed_out: "py_lower ''timed out'' = ''timed out''"
  by (simp add: py_lower_def lower_char_def)

lemma sublist_py_lower: "sublist ns hs \<Longrightarrow> sublist (py_lower ns) (py_lower hs)"
  unfolding py_lower_def by (rule map_mono_sublist)

section \<open>Status labels\<close>

text \<open>
  C9: for a result that is neither successful nor rate limited, the label is TIMEOUT
  exactly when the lower-cased error text contains "timed out" or "timeout"; otherwise
  it is FAILED. In particular the word "timeout" alone gives TIMEOUT.
\<close>

theorem status_label_timeout_iff:
  assumes "\<not> success r" and "\<not> rate_limited r"
  shows "(status_label r = ''TIMEOUT'') =
           (sublist ''timed out'' (py_lower (stderr r)) \<or> sublist ''timeout'' (py_lower (stderr r)))
         \<and> (status_label r = ''FAILED'') =
           (\<not> (sublist ''timed out'' (py_lower (stderr r)) \<or> sublist ''timeout'' (py_lower (stderr r))))"
  using assms by (simp add: status_label_def str_contains_sublist)

theorem status_label_timeout_iff_witness:
  "status_label \<lparr>agent_name = ''codex'', output = [], success = False, returncode = 1,
      stderr = ''Gateway Timeout'', rate_limited = False, retries = 0\<rparr> = ''TIMEOUT''
   \<and> \<not> sublist ''timed out'' (py_lower ''Gateway Timeout'')"
proof -
  have a: "sublist ''timeout'' (py_lower ''Gateway Timeout'')" by code_simp
  have b: "\<not> sublist ''timed out'' (py_lower ''Gateway Timeout'')" by code_simp
  show ?thesis
    using a b status_label_timeout_iff [of "\<lparr>agent_name = ''codex'', output = [],
      success = False, returncode = 1, stderr = ''Gateway Timeout'', rate_limited = False,
      retries = 0\<rparr>"]
    by simp
qed

text \<open>
  C1 as stated fails on the code in two places: the success flag is tested before the
  rate-limit flag, so a result with both flags set is labelled SUCCESS, and an
  unsuccessful result whose error text says "timeout" is labelled TIMEOUT, not FAILED.
\<close>

theorem status_label_table_counterexample:
  "status_label \<lparr>agent_name = ''test'', output = ''ok'', success = True, returncode = 0,
      stderr = [], rate_limited = True, retries = 0\<rparr> = ''SUCCESS''
   \<and> \<not> sublist ''timed out'' ''connection timeout''
   \<and> status_label \<lparr>agent_name = ''test'', output = [], success = False, returncode = 1,
      stderr = ''connection timeout'', rate_limited = False, retries = 0\<rparr> = ''TIMEOUT''"
  by code_simp

text \<open>
  C1, amended: the label follows the flags with the success flag tested first. A
  successful result with \<open>n > 0\<close> retries is labelled "SUCCESS (retried nx)" (so 2 retries
  give "SUCCESS (retried 2x)"), one with 0 retries is labelled SUCCESS; an unsuccessful
  rate-limited result is labelled RATE_LIMITED; an unsuccessful result that is not rate
  limited and whose error text contains "timed out" is labelled TIMEOUT; an
  unsuccessful result that is not rate limited and whose lower-cased error text contains
  neither "timed out" nor "timeout" is labelled FAILED.
\<close>

theorem status_label_table:
  "(success r \<and> retries r > 0 \<longrightarrow>
      status_label r = ''SUCCESS (retried '' @ str_int (retries r) @ ''x)'')
   \<and> (success r \<and> retries r = 2 \<longrightarrow> status_label r = ''SUCCESS (retried 2x)'')
   \<and> (success r \<and> retries r = 0 \<longrightarrow> status_label r = ''SUCCESS'')
   \<and> (\<not> success r \<and> rate_limited r \<longrightarrow> status_label r = ''RATE_LIMITED'')
   \<and> (\<not> success r \<and> \<not> rate_limited r \<and> sublist ''timed out'' (stderr r) \<longrightarrow>
        status_label r = ''TIMEOUT'')
   \<and> (\<not> success r \<and> \<not> rate_limited r \<and> \<not> sublist ''timed out'' (py_lower (stderr r))
        \<and> \<not> sublist ''timeout'' (py_lower (stderr r)) \<longrightarrow> status_label r = ''FAILED'')"
proof -
  have two: "str_int 2 = ''2''" by code_simp
  have canonical: "sublist ''timed out'' (py_lower (stderr r))"
    if "sublist ''timed out'' (stderr r)"
    using sublist_py_lower [OF that] by (simp only: py_lower_timed_out)
  show ?thesis
    using canonical by (auto simp: status_label_def str_contains_sublist two)
qed

theorem status_label_table_witness:
  "status_label \<lparr>agent_name = ''test'', output = ''ok'', success = True, returncode = 0,
      stderr = [], rate_limited = False, retries = 2\<rparr> = ''SUCCESS (retried 2x)''
   \<and> status_label \<lparr>agent_name = ''test'', output = ''ok'', success = True, returncode = 0,
      stderr = [], rate_limited = False, retries = 0\<rparr> = ''SUCCESS''
   \<and> status_label \<lparr>agent_name = ''test'', output = [], success = False, returncode = 0,
      stderr = [], rate_limited = True, retries = 0\<rparr> = ''RATE_LIMITED''
   \<and> status_label \<lparr>agent_name = ''test'', output = [], success = False, returncode = 0,
      stderr = ''Agent timed out after 300s'', rate_limited = False, retries = 0\<rparr> = ''TIMEOUT''
   \<and> status_label \<lparr>agent_name = ''gemini'', output = [], success = False, returncode = 1,
      stderr = ''Connection refused'', rate_limited = False, retries = 0\<rparr> = ''FAILED''"
proof -
  have a: "sublist ''timed out'' ''Agent timed out after 300s''" by code_simp
  have b: "\<not> sublist ''timed out'' (py_lower ''Connection refused'')" by code_simp
  have c: "\<not> sublist ''timeout'' (py_lower ''Connection refused'')" by code_simp
  have two: "str_int 2 = ''2''" by code_simp
  have r1: "status_label \<lparr>agent_name = ''test'', output = ''ok'', success = True,
      returncode = 0, stderr = [], rate_limited = False, retries = 2\<rparr> = ''SUCCESS (retried 2x)''"
    using status_label_table [of "\<lparr>agent_name = ''test'', output = ''ok'', success = True,
      returncode = 0, stderr = [], rate_limited = False, retries = 2\<rparr>"] two by simp
  have r2: "status_label \<lparr>agent_name = ''test'', output = ''ok'', success = True,
      returncode = 0, stderr = [], rate_limited = False, retries = 0\<rparr> = ''SUCCESS''"
    using status_label_table [of "\<lparr>agent_name = ''test'', output = ''ok'', success = True,
      returncode = 0, stderr = [], rate_limited = False, retries = 0\<rparr>"] by simp
  have r3: "status_label \<lparr>agent_name = ''test'', output = [], success = False,
      returncode = 0, stderr = [], rate_limited = True, retries = 0\<rparr> = ''RATE_LIMITED''"
    using status_label_table [of "\<lparr>agent_name = ''test'', output = [], success = False,
      returncode = 0, stderr = [], rate_limited = True, retries = 0\<rparr>"] by simp
  have r4: "status_label \<lparr>agent_name = ''test'', output = [], success = False,
      returncode = 0, stderr = ''Agent timed out after 300s'', rate_limited = False,
      retries = 0\<rparr> = ''TIMEOUT''"
    using a status_label_table [of "\<lparr>agent_name = ''test'', output = [], success = False,
      returncode = 0, stderr = ''Agent timed out after 300s'', rate_limited = False,
      retries = 0\<rparr>"] by simp
  have r5: "status_label \<lparr>agent_name = ''gemini'', output = [], success = False,
      returncode = 1, stderr = ''Connection refused'', rate_limited = False, retries = 0\<rparr>
      = ''FAILED''"
    using b c status_label_table [of "\<lparr>agent_name = ''gemini'', output = [],
      success = False, returncode = 1, stderr = ''Connection refused'', rate_limited = False,
      retries = 0\<rparr>"] by simp
  show ?thesis
    using r1 r2 r3 r4 r5 by (intro conjI)
qed

section \<open>Command lines\<close>

lemma is_digit_digit_char: "d < 10 \<Longrightarrow> is_digit (digit_char d)"
  by (simp add: is_digit_def digit_char_def)

lemma str_nat_digits: "list_all is_digit (str_nat n)"
proof (induction n rule: str_nat.induct)
  case (1 n)
  show ?case
  proof (cases "n < 10")
    case True
    then show ?thesis by (subst str_nat.simps) (simp add: is_digit_digit_char)
  next
    case False
    with 1 show ?thesis by (subst str_nat.simps) (simp add: is_digit_digit_char)
  qed
qed

lemma str_int_tl_digits: "list_all is_digit (tl (str_int i))"
  using str_nat_digits [of "nat i"] str_nat_digits [of "nat (- i)"]
  by (cases "str_nat (nat i)") (simp_all add: str_int_def)

lemma str_int_not_flag:
  "''--permission-mode'' \<noteq> str_int i" "''--model'' \<noteq> str_int i"
proof -
  have "\<not> list_all is_digit (tl ''--permission-mode'')" "\<not> list_all is_digit (tl ''--model'')"
    by (simp_all add: is_digit_def)
  then show "''--permission-mode'' \<noteq> str_int i" "''--model'' \<noteq> str_int i"
    using str_int_tl_digits [of i] by metis+
qed

lemma effective_model_supplied:
  "effective_model a kw = Some m \<Longrightarrow> m \<in> supplied a prompt kw"
  by (auto simp: effective_model_def supplied_def split: if_splits)

lemma flag_values_absent: "f \<notin> set xs \<Longrightarrow> flag_values f (xs @ ys) = flag_values f ys"
proof (induction xs)
  case Nil
  then show ?case by simp
next
  case (Cons x xs)
  then show ?case by (cases "xs @ ys") auto
qed

lemma flag_values_none: "f \<notin> set xs \<Longrightarrow> flag_values f xs = []"
  using flag_values_absent [of f xs "[]"] by simp

lemma flag_values_single:
  assumes "f \<notin> set pre" "f \<notin> set post" "m \<noteq> f"
  shows "flag_values f (pre @ f # m # post) = [m] \<and> count_list (pre @ f # m # post) f = 1"
proof -
  have "flag_values f (m # post) = []"
    using assms by (intro flag_values_none) simp
  moreover have "count_list pre f = 0" "count_list post f = 0"
    using assms by (simp_all add: count_list_0_iff)
  ultimately show ?thesis
    using assms by (simp add: flag_values_absent)
qed


lemma no_approval_flag:
  assumes "kw_auto_approve kw = Some False"
    and "approval_flag (kind a) \<notin> supplied a prompt kw"
  shows "approval_flag (kind a) \<notin> set (build_command a prompt kw)"
proof -
  have off: "\<not> effective_approve a kw"
    using assms(1) by (simp add: effective_approve_def)
  have model: "approval_flag (kind a) \<noteq> the (effective_model a kw)"
    if "truthy_str (effective_model a kw)"
    using that assms(2) effective_model_supplied [of a kw _ prompt]
    by (cases "effective_model a kw") auto
  have sys: "approval_flag (kind a) \<noteq> the (kw_system_prompt kw)"
    if "truthy_str (kw_system_prompt kw)"
    using that assms(2) by (cases "kw_system_prompt kw") (auto simp: supplied_def)
  have rest: "approval_flag (kind a) \<noteq> binary_path a" "approval_flag (kind a) \<noteq> prompt"
    "approval_flag (kind a) \<notin> set (extra_args a)"
    using assms(2) by (auto simp: supplied_def)
  show ?thesis
  proof (cases "kind a")
    case Claude
    then show ?thesis
      using off model sys rest str_int_not_flag(1) [of "the (kw_max_turns kw)"]
      by (auto simp: build_command_def claude_build_command_def)
  next
    case Codex
    then show ?thesis
      using off model rest by (auto simp: build_command_def codex_build_command_def)
  next
    case Gemini
    then show ?thesis
      using off model rest by (auto simp: build_command_def gemini_build_command_def)
  qed
qed

lemma one_model_flag:
  assumes "kw_model kw = Some m" and "m \<noteq> []"
    and "model_flag (kind a) \<notin> supplied a prompt kw"
  shows "flag_values (model_flag (kind a)) (build_command a prompt kw) = [m]
         \<and> count_list (build_command a prompt kw) (model_flag (kind a)) = 1"
proof -
  have eff: "effective_model a kw = Some m"
    using assms(1,2) by (simp add: effective_model_def)
  have m: "m \<noteq> model_flag (kind a)"
    using assms(1,3) by (auto simp: supplied_def)
  have sys: "model_flag (kind a) \<noteq> the (kw_system_prompt kw)"
    if "truthy_str (kw_system_prompt kw)"
    using that assms(3) by (cases "kw_system_prompt kw") (auto simp: supplied_def)
  have rest: "model_flag (kind a) \<noteq> binary_path a" "model_flag (kind a) \<noteq> prompt"
    "model_flag (kind a) \<notin> set (extra_args a)"
    using assms(3) by (auto simp: supplied_def)
  show ?thesis
  proof (cases "kind a")
    case Claude
    define pre where "pre = [binary_path a, ''-p'', prompt]
      @ (if kw_json_output kw then [''--output-format'', ''json''] else [])"
    define post where "post = (if effective_approve a kw then [''--permission-mode'', ''dontAsk''] else [])
      @ (if truthy_str (kw_system_prompt kw)
         then [''--append-system-prompt'', the (kw_system_prompt kw)] else [])
      @ (if truthy_int (kw_max_turns kw) then [''--max-turns'', str_int (the (kw_max_turns kw))] else [])
      @ extra_args a"
    have shape: "build_command a prompt kw = pre @ ''--model'' # m # post"
      using Claude assms(2) eff
      by (simp add: build_command_def claude_build_command_def pre_def post_def)
    have "''--model'' \<notin> set pre" "''--model'' \<notin> set post"
      using Claude rest sys str_int_not_flag(2) [of "the (kw_max_turns kw)"]
      by (auto simp: pre_def post_def)
    with flag_values_single [of "''--model''" pre post m] m Claude shape
    show ?thesis by simp
  next
    case Codex
    define post where "post = (if effective_approve a kw then [''--full-auto''] else [])
      @ (if kw_json_output kw then [''--json''] else []) @ extra_args a @ [prompt]"
    have shape: "build_command a prompt kw = [binary_path a, ''exec''] @ ''-m'' # m # post"
      using Codex assms(2) eff
      by (simp add: build_command_def codex_build_command_def post_def)
    have "''-m'' \<notin> set [binary_path a, ''exec'']" "''-m'' \<notin> set post"
      using Codex rest by (auto simp: post_def)
    with flag_values_single [of "''-m''" "[binary_path a, ''exec'']" post m] m Codex shape
    show ?thesis by simp
  next
    case Gemini
    define pre where "pre = [binary_path a]
      @ (if kw_json_output kw then [''--output-format'', ''json''] else [])"
    define post where "post = (if effective_approve a kw then [''-y''] else [])
      @ extra_args a @ [prompt]"
    have shape: "build_command a prompt kw = pre @ ''-m'' # m # post"
      using Gemini assms(2) eff
      by (simp add: build_command_def gemini_build_command_def pre_def post_def)
    have "''-m'' \<notin> set pre" "''-m'' \<notin> set post"
      using Gemini rest by (auto simp: pre_def post_def)
    with flag_values_single [of "''-m''" pre post m] m Gemini shape
    show ?thesis by simp
  qed
qed

text \<open>
  C8 as stated fails on the code: the prompt and the configured extra arguments are
  copied into the argument list as they are. With the prompt "-y" the Gemini command
  line contains "-y" although automatic approval is switched off, and an extra
  argument pair "-m gpt-5" gives the Codex command line two model pairs.
\<close>

theorem build_command_flags_counterexample:
  "build_command \<lparr>kind = Gemini, binary_path = ''gemini'', timeout = 300, auto_approve = True,
       default_model = None, extra_args = []\<rparr> ''-y'' (no_kwargs\<lparr>kw_auto_approve := Some False\<rparr>)
     = [''gemini'', ''-y'']
   \<and> flag_values ''-m''
       (build_command \<lparr>kind = Codex, binary_path = ''codex'', timeout = 300, auto_approve = True,
          default_model = None, extra_args = [''-m'', ''gpt-5'']\<rparr> ''hello''
          (no_kwargs\<lparr>kw_model := Some ''gpt-5''\<rparr>))
     = [''gpt-5'', ''gpt-5'']"
  by code_simp

text \<open>
  C8, amended: for each of the three adapters, when the approval flag is not one of the
  strings the caller supplies (binary path, prompt, model, default model, system prompt,
  extra arguments), \<^verbatim>\<open>build_command\<close> with \<^verbatim>\<open>auto_approve=False\<close> returns an
  argument list without that flag, whatever the adapter's configured default; and when
  the model flag is not one of the supplied strings, \<^verbatim>\<open>build_command\<close> with a
  non-empty model string returns an argument list in which the model flag occurs
  exactly once, followed by that string.
\<close>

theorem build_command_flags:
  "(kw_auto_approve kw = Some False \<and> approval_flag (kind a) \<notin> supplied a prompt kw \<longrightarrow>
      approval_flag (kind a) \<notin> set (build_command a prompt kw))
   \<and> (kw_model kw = Some m \<and> m \<noteq> [] \<and> model_flag (kind a) \<notin> supplied a prompt kw \<longrightarrow>
      flag_values (model_flag (kind a)) (build_command a prompt kw) = [m]
      \<and> count_list (build_command a prompt kw) (model_flag (kind a)) = 1)"
  using no_approval_flag [of kw a prompt] one_model_flag [of kw m a prompt] by blast

theorem build_command_flags_witness:
  "''--full-auto'' \<notin> set (build_command \<lparr>kind = Codex, binary_path = ''/usr/local/bin/codex'',
       timeout = 300, auto_approve = True, default_model = None,
       extra_args = [''--skip-git-repo-check'']\<rparr> ''implement feature''
       (no_kwargs\<lparr>kw_auto_approve := Some False\<rparr>))
   \<and> flag_values ''--model'' (build_command \<lparr>kind = Claude, binary_path = ''/usr/local/bin/claude'',
       timeout = 300, auto_approve = True, default_model = Some ''sonnet'', extra_args = []\<rparr>
       ''Say hello'' (no_kwargs\<lparr>kw_model := Some ''opus''\<rparr>)) = [''opus'']"
proof -
  have a: "approval_flag Codex \<notin> supplied \<lparr>kind = Codex, binary_path = ''/usr/local/bin/codex'',
       timeout = 300, auto_approve = True, default_model = None,
       extra_args = [''--skip-git-repo-check'']\<rparr> ''implement feature''
       (no_kwargs\<lparr>kw_auto_approve := Some False\<rparr>)"
    by (simp add: supplied_def no_kwargs_def)
  have b: "model_flag Claude \<notin> supplied \<lparr>kind = Claude, binary_path = ''/usr/local/bin/claude'',
       timeout = 300, auto_approve = True, default_model = Some ''sonnet'', extra_args = []\<rparr>
       ''Say hello'' (no_kwargs\<lparr>kw_model := Some ''opus''\<rparr>)"
    by (simp add: supplied_def no_kwargs_def)
  have c: "''--full-auto'' \<notin> set (build_command \<lparr>kind = Codex,
       binary_path = ''/usr/local/bin/codex'', timeout = 300, auto_approve = True,
       default_model = None, extra_args = [''--skip-git-repo-check'']\<rparr> ''implement feature''
       (no_kwargs\<lparr>kw_auto_approve := Some False\<rparr>))"
    using a build_command_flags [of "no_kwargs\<lparr>kw_auto_approve := Some False\<rparr>"
       "\<lparr>kind = Codex, binary_path = ''/usr/local/bin/codex'', timeout = 300,
        auto_approve = True, default_model = None, extra_args = [''--skip-git-repo-check'']\<rparr>"
       "''implement feature''"]
    by simp
  have d: "flag_values ''--model'' (build_command \<lparr>kind = Claude,
       binary_path = ''/usr/local/bin/claude'', timeout = 300, auto_approve = True,
       default_model = Some ''sonnet'', extra_args = []\<rparr>
       ''Say hello'' (no_kwargs\<lparr>kw_model := Some ''opus''\<rparr>)) = [''opus'']"
    using b build_command_flags [of "no_kwargs\<lparr>kw_model := Some ''opus''\<rparr>"
       "\<lparr>kind = Claude, binary_path = ''/usr/local/bin/claude'', timeout = 300,
        auto_approve = True, default_model = Some ''sonnet'', extra_args = []\<rparr>"
       "''Say hello''" "''opus''"]
    by (simp add: no_kwargs_def)
  show ?thesis using c d by (intro conjI)
qed

section \<open>Pattern matching\<close>

lemma takeWhile_prefix_all:
  "list_all P w \<Longrightarrow> length w \<le> length (takeWhile P (w @ t))"
  by (induction w) auto

lemma take_takeWhile_all:
  "k \<le> length (takeWhile P s) \<Longrightarrow> list_all P (take k s)"
proof (induction s arbitrary: k)
  case Nil
  then show ?case by simp
next
  case (Cons x xs)
  then show ?case by (cases k) (auto split: if_splits)
qed

lemma rems_Many1:
  "t \<in> set (rems (Many1 P) s) \<longleftrightarrow> (\<exists>w. w \<noteq> [] \<and> list_all P w \<and> s = w @ t)"
proof
  assume "t \<in> set (rems (Many1 P) s)"
  then obtain k where k: "1 \<le> k" "k \<le> length (takeWhile P s)" "t = drop k s"
    by auto
  have "k \<le> length s"
    using k(2) length_takeWhile_le [of P s] by linarith
  then have "take k s \<noteq> []" using k(1) by auto
  moreover have "list_all P (take k s)" using k(2) by (rule take_takeWhile_all)
  moreover have "s = take k s @ t" using k(3) by simp
  ultimately show "\<exists>w. w \<noteq> [] \<and> list_all P w \<and> s = w @ t" by blast
next
  assume "\<exists>w. w \<noteq> [] \<and> list_all P w \<and> s = w @ t"
  then obtain w where w: "w \<noteq> []" "list_all P w" "s = w @ t" by blast
  have "length w \<le> length (takeWhile P s)"
    using w(2,3) takeWhile_prefix_all by blast
  moreover have "1 \<le> length w" using w(1) by (cases w) auto
  moreover have "t = drop (length w) s" using w(3) by simp
  ultimately have "length w \<in> {1 ..< Suc (length (takeWhile P s))}" "t = drop (length w) s"
    by simp_all
  then have "t \<in> (\<lambda>k. drop k s) ` {1 ..< Suc (length (takeWhile P s))}"
    by (simp only: image_eqI)
  then show "t \<in> set (rems (Many1 P) s)" by (simp del: upt_Suc)
qed

lemma rems_lang: "t \<in> set (rems r s) \<longleftrightarrow> (\<exists>w \<in> lang r. s = w @ t)"
proof (induction r arbitrary: s t)
  case (Lit c)
  then show ?case by (cases s) auto
next
  case Dot
  then show ?case by (cases s) auto
next
  case (Many1 P)
  show ?case using rems_Many1 [of t P s] by auto
next
  case (Opt r)
  then show ?case by auto
next
  case (Cat r1 r2)
  show ?case
  proof
    assume "t \<in> set (rems (Cat r1 r2) s)"
    then obtain m where "m \<in> set (rems r1 s)" "t \<in> set (rems r2 m)" by auto
    then obtain u v where "u \<in> lang r1" "s = u @ m" "v \<in> lang r2" "m = v @ t"
      using Cat.IH by blast
    then have "u @ v \<in> lang (Cat r1 r2)" "s = (u @ v) @ t" by auto
    then show "\<exists>w \<in> lang (Cat r1 r2). s = w @ t" by blast
  next
    assume "\<exists>w \<in> lang (Cat r1 r2). s = w @ t"
    then obtain u v where uv: "u \<in> lang r1" "v \<in> lang r2" "s = (u @ v) @ t" by auto
    then have "v @ t \<in> set (rems r1 s)" using Cat.IH(1) [of "v @ t" s] by auto
    moreover have "t \<in> set (rems r2 (v @ t))" using uv(2) Cat.IH(2) [of t "v @ t"] by auto
    ultimately show "t \<in> set (rems (Cat r1 r2) s)" by auto
  qed
next
  case Eps
  then show ?case by auto
qed

lemma rems_nonempty: "rems r s \<noteq> [] \<longleftrightarrow> (\<exists>w v. s = w @ v \<and> w \<in> lang r)"
proof -
  have "rems r s \<noteq> [] \<longleftrightarrow> (\<exists>t. t \<in> set (rems r s))"
    by (cases "rems r s") auto
  then show ?thesis using rems_lang [of _ r s] by blast
qed

lemma re_search_lang: "re_search r s \<longleftrightarrow> (\<exists>u w v. s = u @ w @ v \<and> w \<in> lang r)"
proof (induction s)
  case Nil
  then show ?case by (simp add: rems_nonempty)
next
  case (Cons x xs)
  show ?case
  proof
    assume "re_search r (x # xs)"
    then consider "rems r (x # xs) \<noteq> []" | "re_search r xs" by auto
    then show "\<exists>u w v. x # xs = u @ w @ v \<and> w \<in> lang r"
    proof cases
      case 1
      then obtain w v where "x # xs = [] @ w @ v" "w \<in> lang r"
        using rems_nonempty [of r "x # xs"] by auto
      then show ?thesis by blast
    next
      case 2
      then obtain u w v where "xs = u @ w @ v" "w \<in> lang r" using Cons.IH by blast
      then have "x # xs = (x # u) @ w @ v" by simp
      with \<open>w \<in> lang r\<close> show ?thesis by blast
    qed
  next
    assume "\<exists>u w v. x # xs = u @ w @ v \<and> w \<in> lang r"
    then obtain u w v where uwv: "x # xs = u @ w @ v" "w \<in> lang r" by blast
    show "re_search r (x # xs)"
    proof (cases u)
      case Nil
      then have "rems r (x # xs) \<noteq> []" using uwv rems_nonempty [of r "x # xs"] by auto
      then show ?thesis by simp
    next
      case (Cons y ys)
      then have "xs = ys @ w @ v" using uwv(1) by simp
      then have "re_search r xs" using uwv(2) Cons.IH by blast
      then show ?thesis by simp
    qed
  qed
qed

lemma lang_lits: "lang (lits s) = {w. map lower_char w = map lower_char s}"
proof (induction s)
  case Nil
  then show ?case by (simp add: lits_def)
next
  case (Cons c cs)
  have "lits (c # cs) = Cat (Lit c) (lits cs)" by (simp add: lits_def)
  then have "lang (lits (c # cs)) = {[x] @ v | x v. ci_eq x c \<and> v \<in> lang (lits cs)}"
    by (simp only: lang.simps) blast
  also have "\<dots> = {x # v | x v. lower_char x = lower_char c \<and> map lower_char v = map lower_char cs}"
    using Cons by (simp add: ci_eq_def)
  also have "\<dots> = {w. map lower_char w = map lower_char (c # cs)}"
    by (auto simp: map_eq_Cons_conv)
  finally show ?case .
qed

lemma strip_parts:
  "\<exists>pre post. s = pre @ strip s @ post \<and> list_all is_space pre \<and> list_all is_space post
     \<and> (strip s \<noteq> [] \<longrightarrow> \<not> is_space (hd (strip s)) \<and> \<not> is_space (last (strip s)))"
proof -
  define d where "d = dropWhile is_space s"
  define e where "e = dropWhile is_space (rev d)"
  have s: "s = takeWhile is_space s @ d" by (simp add: d_def)
  have "rev d = takeWhile is_space (rev d) @ e" by (simp add: e_def)
  then have "rev (rev d) = rev (takeWhile is_space (rev d) @ e)" by simp
  then have d: "d = rev e @ rev (takeWhile is_space (rev d))" by simp
  have st: "strip s = rev e" by (simp add: strip_def d_def e_def)
  have split: "s = takeWhile is_space s @ strip s @ rev (takeWhile is_space (rev d))"
    using s d st by simp
  have pre: "list_all is_space (takeWhile is_space s)"
    by (simp add: list_all_iff) (meson set_takeWhileD)
  have post: "list_all is_space (rev (takeWhile is_space (rev d)))"
    by (simp add: list_all_iff) (meson set_takeWhileD)
  have ends: "\<not> is_space (hd (strip s)) \<and> \<not> is_space (last (strip s))" if ne: "strip s \<noteq> []"
  proof -
    have "e \<noteq> []" using ne st by simp
    then have "\<not> is_space (hd e)" unfolding e_def by (rule hd_dropWhile)
    then have l: "\<not> is_space (last (strip s))" using st \<open>e \<noteq> []\<close> by (simp add: last_rev)
    have "d \<noteq> []" using d ne st by auto
    then have "\<not> is_space (hd d)" unfolding d_def by (rule hd_dropWhile)
    moreover have "hd d = hd (strip s)" using d st ne by (metis hd_append2)
    ultimately show ?thesis using l by simp
  qed
  show ?thesis using split pre post ends by blast
qed

section \<open>Rate-limit detection and output parsing\<close>

lemma strip_trimmed: "trimmed_of (strip s) s"
  unfolding trimmed_of_def by (rule strip_parts)

lemma rate_limited_lang:
  "is_rate_limited out err rc =
     (\<exists>p \<in> set RATE_LIMIT_PATTERNS. \<exists>w \<in> lang p. sublist w (out @ [newline] @ err))"
proof -
  have "re_search p s = (\<exists>w \<in> lang p. sublist w s)" for p s
    unfolding re_search_lang sublist_def by blast
  then show ?thesis
    by (simp add: is_rate_limited_def list_ex_iff)
qed

text \<open>
  C6 as stated fails on the code: the text that is scanned is not the concatenation of
  stdout and stderr but stdout, a newline, stderr. With stdout "4" and stderr "29" the
  concatenation "429" matches the pattern 429, yet \<^verbatim>\<open>is_rate_limited\<close> is false.
\<close>

theorem is_rate_limited_iff_counterexample:
  "\<not> is_rate_limited ''4'' ''29'' 1
   \<and> list_ex (\<lambda>p. re_search p (''4'' @ ''29'')) RATE_LIMIT_PATTERNS"
  by code_simp

text \<open>
  C6, amended: \<^verbatim>\<open>is_rate_limited\<close> is true exactly when the text made of stdout, a
  newline and stderr contains a word of at least one of the nine case-insensitive
  patterns; the exit code has no influence.
\<close>

theorem is_rate_limited_iff:
  "is_rate_limited out err rc =
     (\<exists>p \<in> set RATE_LIMIT_PATTERNS. \<exists>w \<in> lang p. sublist w (out @ [newline] @ err))
   \<and> is_rate_limited out err rc = is_rate_limited out err rc'"
  using rate_limited_lang [of out err rc] by (simp add: is_rate_limited_def)

text \<open>
  C10 as stated fails on the code for the Gemini adapter: its stderr filter drops the
  lines of the deprecation warning, so the stderr field is not the trimmed decoding.
\<close>

theorem parse_output_fields_counterexample:
  "stderr (parse_output ascii_decode
      \<lparr>kind = Gemini, binary_path = ''gemini'', timeout = 300, auto_approve = True,
       default_model = None, extra_args = []\<rparr> [] (ascii_bytes ''punycode'') 1) = []
   \<and> strip (ascii_decode (ascii_bytes ''punycode'')) = ''punycode''"
  by code_simp

text \<open>
  C10, amended: for every stdout and stderr byte string and exit code, the result of
  \<^verbatim>\<open>parse_output\<close> has success true exactly when the exit code is 0 and the result
  is not rate limited; the model of \<^verbatim>\<open>parse_output\<close> is a total function of the
  decoder's result, so an invalid byte sequence cannot make it fail; its output field is
  the whitespace-trimmed decoding of stdout; its stderr field is the adapter's stderr
  filter applied to the whitespace-trimmed decoding of stderr, which for the Claude and
  Codex adapters is that trimmed decoding itself.
\<close>

theorem parse_output_fields:
  "success (parse_output decode a so se rc) = (rc = 0 \<and> \<not> rate_limited (parse_output decode a so se rc))
   \<and> rate_limited (parse_output decode a so se rc)
       = is_rate_limited (output (parse_output decode a so se rc)) (stderr (parse_output decode a so se rc)) rc
   \<and> output (parse_output decode a so se rc) = strip (decode so)
   \<and> trimmed_of (output (parse_output decode a so se rc)) (decode so)
   \<and> stderr (parse_output decode a so se rc) = filter_stderr a (strip (decode se))
   \<and> (kind a \<noteq> Gemini \<longrightarrow> stderr (parse_output decode a so se rc) = strip (decode se)
         \<and> trimmed_of (stderr (parse_output decode a so se rc)) (decode se))"
  using strip_trimmed [of "decode so"] strip_trimmed [of "decode se"]
  by (cases "kind a") (simp_all add: parse_output_def Let_def filter_stderr_def)

theorem parse_output_fields_witness:
  "output (parse_output ascii_decode
      \<lparr>kind = Claude, binary_path = ''claude'', timeout = 30, auto_approve = True,
       default_model = None, extra_args = []\<rparr> (ascii_bytes '' Hi! '') (ascii_bytes ''e '') 0) = ''Hi!''
   \<and> stderr (parse_output ascii_decode
      \<lparr>kind = Claude, binary_path = ''claude'', timeout = 30, auto_approve = True,
       default_model = None, extra_args = []\<rparr> (ascii_bytes '' Hi! '') (ascii_bytes ''e '') 0) = ''e''
   \<and> success (parse_output ascii_decode
      \<lparr>kind = Claude, binary_path = ''claude'', timeout = 30, auto_approve = True,
       default_model = None, extra_args = []\<rparr> (ascii_bytes '' Hi! '') (ascii_bytes ''e '') 0)"
proof -
  define r where "r = parse_output ascii_decode
      \<lparr>kind = Claude, binary_path = ''claude'', timeout = 30, auto_approve = True,
       default_model = None, extra_args = []\<rparr> (ascii_bytes '' Hi! '') (ascii_bytes ''e '') 0"
  have o: "strip (ascii_decode (ascii_bytes '' Hi! '')) = ''Hi!''" by code_simp
  have e: "strip (ascii_decode (ascii_bytes ''e '')) = ''e''" by code_simp
  have l: "\<not> is_rate_limited ''Hi!'' ''e'' 0" by code_simp
  note p = parse_output_fields [of ascii_decode
      "\<lparr>kind = Claude, binary_path = ''claude'', timeout = 30, auto_approve = True,
        default_model = None, extra_args = []\<rparr>" "ascii_bytes '' Hi! ''" "ascii_bytes ''e ''" 0,
      folded r_def]
  have out: "output r = ''Hi!''" using p o by simp
  have err: "stderr r = ''e''" using p e by (simp add: filter_stderr_def)
  have "rate_limited r = is_rate_limited (output r) (stderr r) 0" using p by blast
  then have "\<not> rate_limited r" using out err l by simp
  moreover have "success r = (\<not> rate_limited r)" using p by simp
  ultimately have "success r" by simp
  then show ?thesis using out err unfolding r_def by (intro conjI)
qed

section \<open>The retry loop\<close>

lemma spawn_count_simps [simp]:
  "spawn_count [] = 0"
  "spawn_count (Spawn cmd # tr) = Suc (spawn_count tr)"
  "spawn_count (Sleep d # tr) = spawn_count tr"
  "spawn_count (tr @ tr') = spawn_count tr + spawn_count tr'"
  by (simp_all add: spawn_count_def)

lemma sleeps_append [simp]: "sleeps (tr @ tr') = sleeps tr @ sleeps tr'"
  by (induction tr rule: sleeps.induct) simp_all

lemma sleeps_pause [simp]:
  "length (sleeps (pause_events ex adapter attempt prev)) = (if attempt = 0 then 0 else 1)"
  by (simp add: pause_events_def)

lemma spawn_count_pause [simp]: "spawn_count (pause_events ex adapter attempt prev) = 0"
  by (simp add: pause_events_def)















section \<open>Properties of the executor\<close>



text \<open>
  C7: for an agent name that is not a key of the executor's adapter mapping,
  \<^verbatim>\<open>run_single\<close> returns at once a failed result whose error text is "Unknown agent: "
  followed by the name, with 0 retries; the trace is empty: no process is spawned and
  nothing sleeps.
\<close>

theorem run_single_unknown_agent:
  assumes "agent \<notin> fst ` set (adapters ex)"
  shows "run_single decode ex env agent prompt kw =
           (Inr \<lparr>agent_name = agent, output = [], success = False, returncode = - 1,
                 stderr = ''Unknown agent: '' @ agent, rate_limited = False, retries = 0\<rparr>, [])"
proof -
  have "map_of (adapters ex) agent = None"
    using assms by (simp add: map_of_eq_None_iff)
  then show ?thesis by (simp add: run_single_def from_error_def)
qed

theorem run_single_unknown_agent_witness:
  "run_single ascii_decode example_executor (\<lambda>k cmd. TimedOut) ''nonexistent'' ''test'' no_kwargs =
     (Inr \<lparr>agent_name = ''nonexistent'', output = [], success = False, returncode = - 1,
           stderr = ''Unknown agent: nonexistent'', rate_limited = False, retries = 0\<rparr>, [])"
proof -
  have "''nonexistent'' \<notin> fst ` set (adapters example_executor)"
    by (simp add: example_executor_def)
  from run_single_unknown_agent [OF this] show ?thesis by simp
qed








section \<open>The orchestrator: forced delegation of a coordinator-only primary\<close>


lemma analyze_calls:
  "snd (analyze orc env [] prompt) = [RunSingle (primary orc) (JStr (analysis_prompt orc prompt)) True]"
  by (simp add: analyze_def call_single_def split: sum.splits json.splits)

lemma analyze_plan:
  assumes "single_reply env [] (primary orc) (JStr (analysis_prompt orc prompt)) True = Inr r"
    and "success r" and "loads_plan env (output r) = Inr (JObj plan)"
    and "map_of plan ''delegate'' = Some d"
  shows "analyze orc env [] prompt
           = (Inr plan, [RunSingle (primary orc) (JStr (analysis_prompt orc prompt)) True])"
proof -
  from assms(4) have "''delegate'' \<in> set (map fst plan)"
    by (metis map_of_eq_None_iff option.distinct(1) set_map)
  with assms(1-3) show ?thesis
    by (simp add: analyze_def call_single_def)
qed

lemma build_synthesis_prompt_longer:
  "length prompt < length (build_synthesis_prompt env prompt results)"
  by (cases results) (simp_all add: build_synthesis_prompt_def)

lemma build_synthesis_prompt_differs: "build_synthesis_prompt env prompt results \<noteq> prompt"
  using build_synthesis_prompt_longer [of prompt env results] by auto

text \<open>
  Forced delegation. The primary is claude, the analysis call succeeds and its text
  parses to a plan whose delegate entry is false and whose subtasks entry, if present,
  has a length. Then \<^verbatim>\<open>run\<close> makes, after the analysis call, one call of
  \<^verbatim>\<open>run_parallel\<close> with the prompt unchanged for every adapter name other than the
  primary, in the order of the adapters, and, when that call returns, one call of
  \<^verbatim>\<open>run_single\<close> on the primary with the synthesis prompt, whose output it returns.
  With no adapter other than the primary it raises the "No worker agents available"
  error after the analysis call.
\<close>

lemma run_forced_delegation:
  assumes c: "primary orc = ''claude''"
    and a: "single_reply env [] ''claude'' (JStr (analysis_prompt orc prompt)) True = Inr r"
      "success r" "loads_plan env (output r) = Inr (JObj plan)"
    and d: "map_of plan ''delegate'' = Some (JBool False)"
    and s: "has_len (dict_get plan ''subtasks'' (JArr []))"
  defines "h \<equiv> [RunSingle ''claude'' (JStr (analysis_prompt orc prompt)) True]"
    and "tasks \<equiv> map (\<lambda>agent. (agent, prompt)) (filter (\<lambda>agent. agent \<noteq> ''claude'') (map fst (orc_adapters orc)))"
  shows "run orc env prompt =
     (if tasks = [] then (Inl no_workers, h)
      else case parallel_reply env h tasks of
             Inl e \<Rightarrow> (Inl e, h @ [RunParallel tasks])
           | Inr results \<Rightarrow>
               (case single_reply env (h @ [RunParallel tasks]) ''claude''
                       (JStr (build_synthesis_prompt env prompt results)) False of
                  Inl e \<Rightarrow> Inl e
                | Inr final \<Rightarrow> Inr (output final),
                h @ [RunParallel tasks,
                     RunSingle ''claude'' (JStr (build_synthesis_prompt env prompt results)) False]))"
proof -
  have an: "analyze orc env [] prompt = (Inr plan, h)"
    using analyze_plan [of env orc prompt r plan "JBool False"] a d c by (simp add: h_def)
  have co: "primary_is_coordinator_only orc" using c by (simp add: primary_is_coordinator_only_def)
  have dg: "\<not> truthy (dict_get plan ''delegate'' (JBool False))"
    using d by (simp add: dict_get_def)
  have t: "build_worker_fallback_tasks orc prompt = tasks"
    by (simp add: build_worker_fallback_tasks_def tasks_def c)
  have "run orc env prompt = broadcast orc env h prompt"
    by (simp add: run_def an s dg co)
  also have "\<dots> = (if tasks = [] then (Inl no_workers, h)
      else case parallel_reply env h tasks of
             Inl e \<Rightarrow> (Inl e, h @ [RunParallel tasks])
           | Inr results \<Rightarrow>
               (case single_reply env (h @ [RunParallel tasks]) ''claude''
                       (JStr (build_synthesis_prompt env prompt results)) False of
                  Inl e \<Rightarrow> Inl e
                | Inr final \<Rightarrow> Inr (output final),
                h @ [RunParallel tasks,
                     RunSingle ''claude'' (JStr (build_synthesis_prompt env prompt results)) False]))"
    unfolding broadcast_def t
    by (simp add: call_parallel_def synthesize_def run_direct_def call_single_def c Let_def
             split: sum.splits)
  finally show ?thesis .
qed

lemma analysis_prompt_differs: "analysis_prompt orc prompt \<noteq> prompt"
proof -
  have "length prompt < length (analysis_prompt orc prompt)"
    by (simp add: analysis_prompt_def)
  thus ?thesis by auto
qed

lemma synthesize_calls:
  "snd (synthesize orc env h prompt results)
     = h @ [RunSingle (primary orc) (JStr (build_synthesis_prompt env prompt results)) False]"
  by (simp add: synthesize_def run_direct_def call_single_def split: sum.splits)

lemma broadcast_calls:
  "c \<in> set (snd (broadcast orc env h prompt)) \<Longrightarrow>
     c \<in> set h \<or> (\<exists>tasks. c = RunParallel tasks)
       \<or> (\<exists>results. c = RunSingle (primary orc) (JStr (build_synthesis_prompt env prompt results)) False)"
  by (auto simp add: broadcast_def Let_def call_parallel_def synthesize_calls
        split: if_splits sum.splits)

lemma dispatch_calls:
  "primary_is_coordinator_only orc \<Longrightarrow> c \<in> set (snd (dispatch orc env h prompt plan tasks)) \<Longrightarrow>
     c \<in> set h \<or> (\<exists>tasks. c = RunParallel tasks)
       \<or> (\<exists>results. c = RunSingle (primary orc) (JStr (build_synthesis_prompt env prompt results)) False)"
  by (auto simp add: dispatch_def Let_def call_parallel_def synthesize_calls
        split: if_splits sum.splits)

text \<open>
  The calls of a run whose primary is coordinator-only: the analysis call, parallel
  dispatches and synthesis calls, whatever the environment replies.
\<close>

lemma run_calls:
  assumes co: "primary_is_coordinator_only orc"
    and c: "c \<in> set (snd (run orc env prompt))"
  shows "c = RunSingle (primary orc) (JStr (analysis_prompt orc prompt)) True
       \<or> (\<exists>tasks. c = RunParallel tasks)
       \<or> (\<exists>results. c = RunSingle (primary orc) (JStr (build_synthesis_prompt env prompt results)) False)"
proof -
  obtain res h where an: "analyze orc env [] prompt = (res, h)" by (cases "analyze orc env [] prompt")
  have h: "h = [RunSingle (primary orc) (JStr (analysis_prompt orc prompt)) True]"
    using analyze_calls [of orc env prompt] an by simp
  have "c \<in> set h \<or> (\<exists>tasks. c = RunParallel tasks)
       \<or> (\<exists>results. c = RunSingle (primary orc) (JStr (build_synthesis_prompt env prompt results)) False)"
  proof (cases res)
    case (Inl e)
    show ?thesis
    proof (cases e)
      case (Exn m)
      with Inl an co c have "c \<in> set (snd (broadcast orc env h prompt))" by (simp add: run_def)
      thus ?thesis by (rule broadcast_calls)
    next
      case (BaseExn m)
      with Inl an c show ?thesis by (simp add: run_def)
    qed
  next
    case (Inr plan)
    let ?sub = "dict_get plan ''subtasks'' (JArr [])"
    show ?thesis
    proof (cases "has_len ?sub")
      case False
      with Inr an c show ?thesis by (simp add: run_def)
    next
      case True
      show ?thesis
      proof (cases "truthy (dict_get plan ''delegate'' (JBool False))")
        case False
        with True Inr an co c have "c \<in> set (snd (broadcast orc env h prompt))" by (simp add: run_def)
        thus ?thesis by (rule broadcast_calls)
      next
        case d: True
        show ?thesis
        proof (cases "build_dispatch_tasks orc (elements ?sub)")
          case (Inl e)
          with d True Inr an c show ?thesis by (simp add: run_def)
        next
          case tk: (Inr tasks)
          show ?thesis
          proof (cases "tasks = []")
            case False
            with tk d True Inr an co c have "c \<in> set (snd (dispatch orc env h prompt plan tasks))"
              by (simp add: run_def)
            thus ?thesis by (rule dispatch_calls [OF co])
          next
            case e: True
            show ?thesis
            proof (cases "build_worker_fallback_tasks orc prompt = []")
              case True
              with e tk d \<open>has_len ?sub\<close> Inr an co c show ?thesis by (simp add: run_def)
            next
              case False
              with e tk d \<open>has_len ?sub\<close> Inr an co c
              have "c \<in> set (snd (dispatch orc env h prompt plan (build_worker_fallback_tasks orc prompt)))"
                by (simp add: run_def Let_def)
              thus ?thesis by (rule dispatch_calls [OF co])
            qed
          qed
        qed
      qed
    qed
  qed
  thus ?thesis by (simp add: h)
qed

text \<open>
  With claude as primary no call of \<^verbatim>\<open>run_single\<close> has the user's prompt as its prompt.
\<close>

lemma run_never_direct:
  assumes "primary orc = ''claude''"
  shows "RunSingle agent (JStr prompt) json_out \<notin> set (snd (run orc env prompt))"
proof
  assume "RunSingle agent (JStr prompt) json_out \<in> set (snd (run orc env prompt))"
  from run_calls [OF _ this] assms show False
    by (auto simp add: primary_is_coordinator_only_def
          analysis_prompt_differs [THEN not_sym] build_synthesis_prompt_differs [THEN not_sym])
qed

lemma run_forced_delegation_example:
  "run example_orchestrator
       (example_environment (JObj [(''delegate'', JBool False), (''subtasks'', JArr [])])) ''hi''
     = (Inr ''done'',
        [RunSingle ''claude'' (JStr (analysis_prompt example_orchestrator ''hi'')) True,
         RunParallel [(''gemini'', ''hi''), (''codex'', ''hi'')],
         RunSingle ''claude''
           (JStr (build_synthesis_prompt (example_environment (JObj [(''delegate'', JBool False), (''subtasks'', JArr [])])) ''hi''
                    [example_result ''gemini'' ''gemini'', example_result ''codex'' ''codex'']))
           False])"
proof -
  let ?env = "example_environment (JObj [(''delegate'', JBool False), (''subtasks'', JArr [])])"
  have "primary example_orchestrator = ''claude''"
    by (simp add: example_orchestrator_def new_orchestrator_def)
  moreover have "single_reply ?env [] ''claude'' (JStr (analysis_prompt example_orchestrator ''hi'')) True
      = Inr (example_result ''claude'' ''plan'')"
    by (simp add: example_environment_def)
  moreover have "success (example_result ''claude'' ''plan'')"
    by (simp add: example_result_def)
  moreover have "loads_plan ?env (output (example_result ''claude'' ''plan''))
      = Inr (JObj [(''delegate'', JBool False), (''subtasks'', JArr [])])"
    by (simp add: example_environment_def example_result_def)
  moreover have "map_of [(''delegate'', JBool False), (''subtasks'', JArr [])] ''delegate'' = Some (JBool False)"
    by simp
  moreover have "has_len (dict_get [(''delegate'', JBool False), (''subtasks'', JArr [])] ''subtasks'' (JArr []))"
    by (simp add: dict_get_def)
  ultimately have "run example_orchestrator ?env ''hi'' =
     (let h = [RunSingle ''claude'' (JStr (analysis_prompt example_orchestrator ''hi'')) True];
          tasks = map (\<lambda>agent. (agent, ''hi''))
                    (filter (\<lambda>agent. agent \<noteq> ''claude'') (map fst (orc_adapters example_orchestrator)))
      in if tasks = [] then (Inl no_workers, h)
         else case parallel_reply ?env h tasks of
             Inl e \<Rightarrow> (Inl e, h @ [RunParallel tasks])
           | Inr results \<Rightarrow>
               (case single_reply ?env (h @ [RunParallel tasks]) ''claude''
                       (JStr (build_synthesis_prompt ?env ''hi'' results)) False of
                  Inl e \<Rightarrow> Inl e
                | Inr final \<Rightarrow> Inr (output final),
                h @ [RunParallel tasks,
                     RunSingle ''claude'' (JStr (build_synthesis_prompt ?env ''hi'' results)) False]))"
    unfolding Let_def by (rule run_forced_delegation)
  moreover have "map (\<lambda>agent. (agent, ''hi''))
                    (filter (\<lambda>agent. agent \<noteq> ''claude'') (map fst (orc_adapters example_orchestrator)))
      = [(''gemini'', ''hi''), (''codex'', ''hi'')]"
    by (simp add: example_orchestrator_def new_orchestrator_def)
  ultimately show ?thesis
    by (simp add: Let_def example_environment_def example_result_def)
qed

text \<open>
  C3: a plan whose subtasks entry is null. The primary is claude, the workers gemini
  and codex exist, the analysis succeeds and its text parses to the plan
  \<^verbatim>\<open>{"delegate": false, "subtasks": null}\<close>. The logging call that follows the analysis
  takes the length of the subtasks entry, so \<^verbatim>\<open>run\<close> raises a \<^verbatim>\<open>TypeError\<close> there:
  the analysis call is the only call made, no worker receives the prompt and nothing
  is synthesized.
\<close>

theorem run_subtasks_null: "run example_orchestrator (example_environment (JObj [(''delegate'', JBool False), (''subtasks'', JNull)])) ''hi''
   = (Inl TypeError, [RunSingle ''claude'' (JStr (analysis_prompt example_orchestrator ''hi'')) True])"
  by (simp add: run_def analyze_def call_single_def example_orchestrator_def new_orchestrator_def
      example_environment_def example_result_def dict_get_def)

end
